theory Spec2Isabelle
  imports Main "HOL-Library.Word"
begin

unbundle bit_operations_syntax

chapter \<open>Member management and social login: a shallow embedding\<close>

text \<open>
  The development embeds the social-login handlers of \<^verbatim>\<open>_bbs/social.py\<close> and the
  administrator member form of \<^verbatim>\<open>_admin/admin_member.py\<close>. Python strings are
  represented by their UTF-8 byte sequences (\<^typ>\<open>string\<close>), so that
  \<^verbatim>\<open>str.encode()\<close> is the identity on the representation up to the type of bytes.
  Database tables are lists of rows in storage order; \<^verbatim>\<open>query(...).first()\<close> is the
  first row of the list that satisfies the filter. Exceptions are values of a sum type.
\<close>

section \<open>Library primitives used by the identity hasher\<close>

subsection \<open>MD5 (\<^verbatim>\<open>hashlib.md5\<close>, RFC 1321)\<close>

text \<open>
  \<^verbatim>\<open>hashlib.md5(data).hexdigest()\<close>: the message is padded with the byte 0x80, zero
  bytes up to 56 modulo 64 and the 64-bit little-endian bit length, and consumed in 64-byte
  blocks of sixteen little-endian 32-bit words; all additions wrap around at 32 bits.
\<close>

type_synonym u8 = "8 word"
type_synonym u32 = "32 word"
type_synonym u64 = "64 word"

definition md5_K :: "u32 list" where
  "md5_K = [3614090360, 3905402710, 606105819, 3250441966, 4118548399, 1200080426, 2821735955, 4249261313, 1770035416, 2336552879, 4294925233, 2304563134, 1804603682, 4254626195, 2792965006, 1236535329, 4129170786, 3225465664, 643717713, 3921069994, 3593408605, 38016083, 3634488961, 3889429448, 568446438, 3275163606, 4107603335, 1163531501, 2850285829, 4243563512, 1735328473, 2368359562, 4294588738, 2272392833, 1839030562, 4259657740, 2763975236, 1272893353, 4139469664, 3200236656, 681279174, 3936430074, 3572445317, 76029189, 3654602809, 3873151461, 530742520, 3299628645, 4096336452, 1126891415, 2878612391, 4237533241, 1700485571, 2399980690, 4293915773, 2240044497, 1873313359, 4264355552, 2734768916, 1309151649, 4149444226, 3174756917, 718787259, 3951481745]"

definition md5_S :: "nat list" where
  "md5_S = [7, 12, 17, 22, 7, 12, 17, 22, 7, 12, 17, 22, 7, 12, 17, 22,
            5, 9, 14, 20, 5, 9, 14, 20, 5, 9, 14, 20, 5, 9, 14, 20,
            4, 11, 16, 23, 4, 11, 16, 23, 4, 11, 16, 23, 4, 11, 16, 23,
            6, 10, 15, 21, 6, 10, 15, 21, 6, 10, 15, 21, 6, 10, 15, 21]"

definition rotl32 :: "u32 \<Rightarrow> nat \<Rightarrow> u32" where
  "rotl32 x n = (push_bit n x) OR (drop_bit (32 - n) x)"

definition md5_F :: "nat \<Rightarrow> u32 \<Rightarrow> u32 \<Rightarrow> u32 \<Rightarrow> u32" where
  "md5_F i b c d =
     (if i < 16 then (b AND c) OR (NOT b AND d)
      else if i < 32 then (d AND b) OR (NOT d AND c)
      else if i < 48 then b XOR c XOR d
      else c XOR (b OR NOT d))"

definition md5_g :: "nat \<Rightarrow> nat" where
  "md5_g i =
     (if i < 16 then i
      else if i < 32 then (5 * i + 1) mod 16
      else if i < 48 then (3 * i + 5) mod 16
      else (7 * i) mod 16)"

type_synonym md5_state = "u32 \<times> u32 \<times> u32 \<times> u32"

definition md5_step :: "u32 list \<Rightarrow> md5_state \<Rightarrow> nat \<Rightarrow> md5_state" where
  "md5_step m st i =
     (case st of (a, b, c, d) \<Rightarrow>
        (d, b + rotl32 (md5_F i b c d + a + md5_K ! i + m ! md5_g i) (md5_S ! i), b, c))"

fun le_word :: "u8 list \<Rightarrow> u32" where
  "le_word [] = 0"
| "le_word (b # bs) = ucast b OR push_bit 8 (le_word bs)"

fun chunks :: "nat \<Rightarrow> 'a list \<Rightarrow> 'a list list" where
  "chunks n [] = []"
| "chunks n (x # xs) = (if n = 0 then [] else take n (x # xs) # chunks n (drop n (x # xs)))"

definition md5_block :: "md5_state \<Rightarrow> u8 list \<Rightarrow> md5_state" where
  "md5_block st blk =
     (case st of (a0, b0, c0, d0) \<Rightarrow>
      case foldl (md5_step (map le_word (chunks 4 blk))) st [0..<64] of (a, b, c, d) \<Rightarrow>
        (a0 + a, b0 + b, c0 + c, d0 + d))"

definition le_bytes32 :: "u32 \<Rightarrow> u8 list" where
  "le_bytes32 w = map (\<lambda>i. ucast (drop_bit (8 * i) w)) [0..<4]"

definition le_bytes64 :: "u64 \<Rightarrow> u8 list" where
  "le_bytes64 w = map (\<lambda>i. ucast (drop_bit (8 * i) w)) [0..<8]"

definition md5_pad :: "u8 list \<Rightarrow> u8 list" where
  "md5_pad bs =
     bs @ [128] @ replicate ((119 - length bs mod 64) mod 64) 0
        @ le_bytes64 (8 * of_nat (length bs))"

definition md5_init :: md5_state where
  "md5_init = (0x67452301, 0xefcdab89, 0x98badcfe, 0x10325476)"

definition md5_digest :: "u8 list \<Rightarrow> u8 list" where
  "md5_digest bs =
     (case foldl md5_block md5_init (chunks 64 (md5_pad bs)) of (a, b, c, d) \<Rightarrow>
        le_bytes32 a @ le_bytes32 b @ le_bytes32 c @ le_bytes32 d)"

definition hex_digit :: "nat \<Rightarrow> char" where
  "hex_digit n = ''0123456789abcdef'' ! n"

definition hex_byte :: "u8 \<Rightarrow> string" where
  "hex_byte b = [hex_digit (unat (drop_bit 4 b)), hex_digit (unat (b AND 15))]"

definition encode :: "string \<Rightarrow> u8 list" where
  "encode s = map of_char s"

definition md5_hexdigest :: "u8 list \<Rightarrow> string" where
  "md5_hexdigest bs = concat (map hex_byte (md5_digest bs))"


subsection \<open>Adler-32 (\<^verbatim>\<open>zlib.adler32\<close>, RFC 1950) and \<^verbatim>\<open>hex\<close>\<close>

text \<open>
  \<^verbatim>\<open>zlib.adler32(data)\<close> starts from the value 1, keeps two sums modulo 65521 and
  returns the unsigned value \<open>b * 65536 + a\<close>. Python's \<^verbatim>\<open>hex(n)\<close> renders an
  integer as \<^verbatim>\<open>0x\<close> followed by its lowercase hexadecimal digits, most significant
  first, with a leading minus sign for a negative number.
\<close>

fun adler32_step :: "int \<times> int \<Rightarrow> u8 \<Rightarrow> int \<times> int" where
  "adler32_step (a, b) x = ((a + uint x) mod 65521, (b + (a + uint x) mod 65521) mod 65521)"

definition adler32 :: "u8 list \<Rightarrow> int" where
  "adler32 bs = (case foldl adler32_step (1, 0) bs of (a, b) \<Rightarrow> b * 65536 + a)"

function hex_digits :: "int \<Rightarrow> string" where
  "hex_digits n =
     (if n < 16 then [hex_digit (nat n)]
      else hex_digits (n div 16) @ [hex_digit (nat (n mod 16))])"
  by pat_completeness auto
termination
  by (relation "measure nat") auto

declare hex_digits.simps [simp del]

definition hex_py :: "int \<Rightarrow> string" where
  "hex_py n = (if n < 0 then ''-0x'' @ hex_digits (- n) else ''0x'' @ hex_digits n)"

section \<open>The identity hasher\<close>

text \<open>
  \<^verbatim>\<open>SocialAuthService.g5_convert_social_id\<close>:
  \<^verbatim>\<open>md5_hash = hashlib.md5(identifier.encode()).hexdigest()\<close>,
  \<^verbatim>\<open>adler32_hash = zlib.adler32(md5_hash.encode())\<close>,
  \<^verbatim>\<open>return f"{provider}_{hex(adler32_hash)[2:]}"\<close>.
\<close>

definition g5_convert_social_id :: "string \<Rightarrow> string \<Rightarrow> string" where
  "g5_convert_social_id identifier provider =
     (let md5_hash = md5_hexdigest (encode identifier);
          adler32_hash = adler32 (encode md5_hash)
      in provider @ ''_'' @ drop 2 (hex_py adler32_hash))"

text \<open>
  Reading a string of lowercase hexadecimal digits back as a number; used to state that
  the rendered checksum denotes the Adler-32 value.
\<close>

definition hex_digit_value :: "char \<Rightarrow> int" where
  "hex_digit_value c = int (length (takeWhile (\<lambda>d. d \<noteq> c) ''0123456789abcdef''))"

definition hex_value :: "string \<Rightarrow> int" where
  "hex_value s = foldl (\<lambda>acc c. 16 * acc + hex_digit_value c) 0 s"

section \<open>Data model\<close>

text \<open>
  A row of the member table (\<^verbatim>\<open>models.Member\<close>). Nullable columns are options;
  the primary key \<open>mb_id\<close> is a string.
\<close>

record member =
  mb_id :: string
  mb_password :: "string option"
  mb_name :: "string option"
  mb_nick :: "string option"
  mb_level :: "int option"
  mb_nick_date :: "string option"
  mb_email :: "string option"
  mb_homepage :: "string option"
  mb_hp :: "string option"
  mb_tel :: "string option"
  mb_certify :: "string option"
  mb_adult :: "int option"
  mb_zip1 :: "string option"
  mb_zip2 :: "string option"
  mb_addr1 :: "string option"
  mb_addr2 :: "string option"
  mb_addr3 :: "string option"
  mb_mailling :: "int option"
  mb_sms :: "int option"
  mb_open :: "int option"
  mb_signature :: "string option"
  mb_profile :: "string option"
  mb_memo :: "string option"
  mb_intercept_date :: "string option"
  mb_leave_date :: "string option"
  mb_1 :: "string option"
  mb_2 :: "string option"
  mb_3 :: "string option"
  mb_4 :: "string option"
  mb_5 :: "string option"
  mb_6 :: "string option"
  mb_7 :: "string option"
  mb_8 :: "string option"
  mb_9 :: "string option"
  mb_10 :: "string option"
  mb_today_login :: "string option"
  mb_datetime :: "string option"


text \<open>
  A row of the social profile table (\<^verbatim>\<open>models.MemberSocialProfiles\<close>); the same
  class is the normalised profile that a provider adapter returns.
\<close>

record social_profile =
  sp_mb_id :: "string option"
  sp_provider :: string
  sp_identifier :: string
  sp_nickname :: "string option"
  sp_profile_url :: "string option"
  sp_photourl :: "string option"
  sp_object_sha :: "string option"
  sp_mp_register_day :: "string option"

text \<open>
  A recorded call of the ledger \<^verbatim>\<open>insert_point\<close>. The content of the registration
  bonus is the formatted timestamp followed by a fixed Korean phrase (first login); the
  phrase and the Korean action label (member registration) are constructors.
\<close>

datatype point_content = FirstLogin string

datatype rel_action = MemberRegistration

record point_call =
  po_mb_id :: string
  po_point :: int
  po_content :: point_content
  po_rel_table :: string
  po_rel_id :: string
  po_rel_action :: rel_action

record db =
  members :: "member list"
  social_profiles :: "social_profile list"
  point_calls :: "point_call list"

text \<open>
  The keys of \<^verbatim>\<open>request.session\<close> that the handlers use. A key read with
  \<^verbatim>\<open>session.get(key, None)\<close> is an option (absent and \<^verbatim>\<open>None\<close> are not told
  apart by the code); \<open>ss_social_link\<close> records whether the key is present, which is all
  the code tests.
\<close>

record session =
  ss_social_access :: "string option"
  ss_social_provider :: "string option"
  ss_social_email :: "string option"
  ss_social_link :: bool
  ss_mb_id :: "string option"
  ss_mb_key :: "string option"
  ss_member_form_mb_id :: "string option"

record config =
  cf_social_login_use :: int
  cf_prohibit_id :: string
  cf_register_level :: int
  cf_register_point :: int

record datetime =
  dt_strftime :: string
  dt_microsecond :: int

text \<open>
  The collaborators that live outside the three source files: the password hash and its
  verifier, the server time constants, the policy validators (each returns its message,
  empty when the value is accepted), the session key, the OAuth token exchange and profile
  fetch for the current request, and the provider adapters looked up by name
  (\<^verbatim>\<open>getattr(providers, name)\<close>, absent for an unknown name), each with its
  \<^verbatim>\<open>convert_gnu_profile_data\<close>.
\<close>

record env =
  hash_password :: "string \<Rightarrow> string"
  verify_password :: "string \<Rightarrow> string \<Rightarrow> bool"
  TIME_YMDHIS :: string
  TIME_YMD :: string
  validate_userid :: "string \<Rightarrow> string \<Rightarrow> string"
  valid_email :: "string option \<Rightarrow> bool"
  validate_nickname :: "string option \<Rightarrow> string \<Rightarrow> string"
  session_member_key :: "string \<Rightarrow> string option \<Rightarrow> string"
  get_social_login_token :: "string \<Rightarrow> string option"
  get_social_profile :: "string \<Rightarrow> string \<Rightarrow> string"
  providers :: "string \<Rightarrow> (string \<Rightarrow> string option \<times> social_profile) option"

subsection \<open>Responses and exceptions\<close>

datatype url = Path string | UrlFor string

text \<open>
  A redirect with its status code, or the rendered administrator member form with the
  member it shows (none on the registration form) and its token.
\<close>

datatype response =
    RedirectResponse url nat
  | MemberFormTemplate "member option" string

text \<open>
  The Korean messages of the alerts are constructors: service not in use; try again
  later; invalid request, contact the administrator; invalid request; social login is not
  in use; the member id is already registered through social login; the message of a policy
  validator; malformed email; the email already exists.
\<close>

datatype alert_detail =
    ServiceNotUsed
  | TryAgainLater
  | InvalidRequestContactAdmin
  | InvalidRequest
  | SocialLoginNotUsed
  | AlreadySocialMember
  | PolicyMessage string
  | EmailMalformed
  | EmailExists

text \<open>
  The details of the administrator form's errors: the member id already exists; the
  nickname already exists (with its owner); the email already exists (with its owner);
  invalid token; the member id does not exist.
\<close>

datatype admin_detail =
    MemberIdExists string
  | NicknameExists "string option" string
  | MemberEmailExists "string option" string
  | InvalidToken
  | MemberIdMissing string
  | IsNotFound

datatype error =
    AlertException nat alert_detail "url option"
  | HTTPException nat admin_detail
  | AttributeError
  | IndexError

subsection \<open>Python truth values and strings\<close>

definition truthy_str :: "string option \<Rightarrow> bool" where
  "truthy_str x = (case x of None \<Rightarrow> False | Some s \<Rightarrow> s \<noteq> [])"

definition truthy_int :: "int option \<Rightarrow> bool" where
  "truthy_int x = (case x of None \<Rightarrow> False | Some n \<Rightarrow> n \<noteq> 0)"

text \<open>\<^verbatim>\<open>x if x else ''\<close> and \<^verbatim>\<open>x if x else d\<close>.\<close>

definition str_or_empty :: "string option \<Rightarrow> string option" where
  "str_or_empty x = (if truthy_str x then x else Some [])"

definition int_or :: "int option \<Rightarrow> int \<Rightarrow> int option" where
  "int_or x d = (if truthy_int x then x else Some d)"

text \<open>\<^verbatim>\<open>s.split(c)\<close> for a separator of one character.\<close>

fun split_py :: "char \<Rightarrow> string \<Rightarrow> string list" where
  "split_py c [] = [[]]"
| "split_py c (x # xs) =
     (if x = c then [] # split_py c xs
      else (case split_py c xs of [] \<Rightarrow> [[x]] | w # ws \<Rightarrow> (x # w) # ws))"

text \<open>\<^verbatim>\<open>str(n)\<close> for an integer.\<close>

function dec_digits :: "int \<Rightarrow> string" where
  "dec_digits n =
     (if n < 10 then [hex_digit (nat n)]
      else dec_digits (n div 10) @ [hex_digit (nat (n mod 10))])"
  by pat_completeness auto
termination
  by (relation "measure nat") auto

declare dec_digits.simps [simp del]

definition str_int :: "int \<Rightarrow> string" where
  "str_int n = (if n < 0 then ''-'' @ dec_digits (- n) else dec_digits n)"

text \<open>The first row that satisfies a filter is overwritten in place.\<close>

fun update_first :: "('a \<Rightarrow> bool) \<Rightarrow> ('a \<Rightarrow> 'a) \<Rightarrow> 'a list \<Rightarrow> 'a list" where
  "update_first P f [] = []"
| "update_first P f (x # xs) = (if P x then f x # xs else x # update_first P f xs)"


section \<open>Social login (\<^verbatim>\<open>_bbs/social.py\<close>)\<close>

text \<open>\<^verbatim>\<open>SocialAuthService.get_member_by_social_id\<close>.\<close>

definition get_member_by_social_id :: "db \<Rightarrow> string \<Rightarrow> string \<Rightarrow> string option" where
  "get_member_by_social_id d identifier provider =
     (case find (\<lambda>p. sp_provider p = provider \<and> sp_identifier p = identifier)
             (social_profiles d) of
        Some result \<Rightarrow> sp_mb_id result
      | None \<Rightarrow> None)"

text \<open>\<^verbatim>\<open>SocialAuthService.check_exists_social_id\<close>.\<close>

definition check_exists_social_id :: "db \<Rightarrow> string \<Rightarrow> string \<Rightarrow> bool" where
  "check_exists_social_id d identifier provider =
     (case find (\<lambda>p. sp_provider p = provider \<and> sp_identifier p = identifier)
             (social_profiles d) of
        Some result \<Rightarrow> True
      | None \<Rightarrow> False)"

text \<open>
  \<^verbatim>\<open>authorize_social_login\<close>, the OAuth callback. The arguments are the values of the
  query parameter \<^verbatim>\<open>provider\<close> and the member id of
  \<^verbatim>\<open>request.state.login_member\<close>; the profile identifier is the string
  \<^verbatim>\<open>str(profile.identifier)\<close>.
\<close>

definition authorize_social_login ::
  "env \<Rightarrow> db \<Rightarrow> session \<Rightarrow> string list \<Rightarrow> string option
     \<Rightarrow> db \<times> session \<times> (error + response)" where
  "authorize_social_login e d s provider login_member_mb_id =
     (case provider of
        [] \<Rightarrow> (d, s, Inl (AlertException 400 ServiceNotUsed None))
      | provider_name # _ \<Rightarrow>
     (case get_social_login_token e provider_name of
        None \<Rightarrow> (d, s, Inl (AlertException 400 TryAgainLater (Some (UrlFor ''login''))))
      | Some auth_token \<Rightarrow>
     (case providers e provider_name of
        None \<Rightarrow> (d, s, Inl AttributeError)
      | Some convert_gnu_profile_data \<Rightarrow>
        let s1 = s\<lparr>ss_social_access := Some auth_token\<rparr>;
            response = get_social_profile e auth_token provider_name;
            (social_email, profile) = convert_gnu_profile_data response;
            identifier = sp_identifier profile
        in
        if identifier = [] then
          (d, s1, Inl (AlertException 400 InvalidRequestContactAdmin (Some (UrlFor ''login''))))
        else
          let gnu_social_id = g5_convert_social_id identifier provider_name;
              found = get_member_by_social_id d gnu_social_id provider_name
          in
          if truthy_str found then
            (case find (\<lambda>m. Some (mb_id m) = found) (members d) of
               None \<Rightarrow>
                 (d, s1, Inl (AlertException 400 InvalidRequest (Some (UrlFor ''login''))))
             | Some m \<Rightarrow>
                 (d,
                  s1\<lparr>ss_mb_id := Some (mb_id m),
                     ss_mb_key := Some (session_member_key e (mb_id m) (mb_datetime m))\<rparr>,
                  Inr (RedirectResponse (Path ''/'') 302)))
          else if ss_social_link s1 \<and> truthy_str login_member_mb_id then
            (d\<lparr>social_profiles :=
                 social_profiles d @ [profile\<lparr>sp_mb_id := login_member_mb_id\<rparr>]\<rparr>,
             s1,
             Inr (RedirectResponse (UrlFor ''index'') 302))
          else
            (d,
             s1\<lparr>ss_social_provider := Some provider_name, ss_social_email := social_email\<rparr>,
             Inr (RedirectResponse (UrlFor ''get_social_register_form'') 302)))))"

text \<open>The two fields of \<^verbatim>\<open>MemberForm\<close> that the registration reads.\<close>

record member_form =
  mf_mb_email :: "string option"
  mf_mb_nick :: "string option"

text \<open>
  \<^verbatim>\<open>post_social_register\<close>. The session is read and not written. A new
  \<^verbatim>\<open>Member()\<close> and a new \<^verbatim>\<open>MemberSocialProfiles()\<close> have every column unset
  until the handler assigns it.
\<close>

definition empty_member :: member where
  "empty_member =
     \<lparr>mb_id = [], mb_password = None, mb_name = None, mb_nick = None, mb_level = None,
      mb_nick_date = None, mb_email = None, mb_homepage = None, mb_hp = None, mb_tel = None,
      mb_certify = None, mb_adult = None, mb_zip1 = None, mb_zip2 = None, mb_addr1 = None,
      mb_addr2 = None, mb_addr3 = None, mb_mailling = None, mb_sms = None, mb_open = None,
      mb_signature = None, mb_profile = None, mb_memo = None, mb_intercept_date = None,
      mb_leave_date = None, mb_1 = None, mb_2 = None, mb_3 = None, mb_4 = None, mb_5 = None,
      mb_6 = None, mb_7 = None, mb_8 = None, mb_9 = None, mb_10 = None,
      mb_today_login = None, mb_datetime = None\<rparr>"

definition post_social_register ::
  "env \<Rightarrow> config \<Rightarrow> db \<Rightarrow> session \<Rightarrow> member_form \<Rightarrow> datetime
     \<Rightarrow> db \<times> (error + response)" where
  "post_social_register e c d s mf request_time =
     (if cf_social_login_use c = 0 then
        (d, Inl (AlertException 400 SocialLoginNotUsed (Some (UrlFor ''login''))))
      else
     (case (ss_social_access s, ss_social_provider s) of
        (None, _) \<Rightarrow>
          (d, Inl (AlertException 400 InvalidRequestContactAdmin (Some (UrlFor ''login''))))
      | (_, None) \<Rightarrow>
          (d, Inl (AlertException 400 InvalidRequestContactAdmin (Some (UrlFor ''login''))))
      | (Some auth_token, Some provider_name) \<Rightarrow>
     (case providers e provider_name of
        None \<Rightarrow> (d, Inl AttributeError)
      | Some convert_gnu_profile_data \<Rightarrow>
        let response = get_social_profile e auth_token provider_name;
            (social_email, profile) = convert_gnu_profile_data response;
            identifier = sp_identifier profile
        in
        if identifier = [] then
          (d, Inl (AlertException 400 InvalidRequestContactAdmin (Some (UrlFor ''login''))))
        else
          let gnu_social_id = g5_convert_social_id identifier provider_name in
          if find (\<lambda>m. mb_id m = gnu_social_id) (members d) \<noteq> None then
            (d, Inl (AlertException 400 AlreadySocialMember (Some (UrlFor ''login''))))
          else if validate_userid e gnu_social_id (cf_prohibit_id c) \<noteq> [] then
            (d, Inl (AlertException 400
                   (PolicyMessage (validate_userid e gnu_social_id (cf_prohibit_id c))) None))
          else if \<not> valid_email e (mf_mb_email mf) then
            (d, Inl (AlertException 400 EmailMalformed None))
          else if find (\<lambda>m. mb_email m = mf_mb_email mf) (members d) \<noteq> None then
            (d, Inl (AlertException 400 EmailExists None))
          else if validate_nickname e (mf_mb_nick mf) (cf_prohibit_id c) \<noteq> [] then
            (d, Inl (AlertException 400
                   (PolicyMessage (validate_nickname e (mf_mb_nick mf) (cf_prohibit_id c))) None))
          else
            (case (if truthy_str (mf_mb_nick mf) then Inr (mf_mb_nick mf)
                   else (case split_py CHR ''_'' gnu_social_id of
                           _ # part # _ \<Rightarrow> Inr (Some part)
                         | _ \<Rightarrow> Inl IndexError)) of
               Inl err \<Rightarrow> (d, Inl err)
             | Inr nick \<Rightarrow>
                 let member_social_profiles =
                       \<lparr>sp_mb_id = Some gnu_social_id,
                        sp_provider = provider_name,
                        sp_identifier = gnu_social_id,
                        sp_nickname = nick,
                        sp_profile_url = sp_profile_url profile,
                        sp_photourl = sp_photourl profile,
                        sp_object_sha = Some [],
                        sp_mp_register_day = Some (dt_strftime request_time)\<rparr>;
                     new_member = empty_member
                       \<lparr>mb_id := gnu_social_id,
                        mb_password := Some (hash_password e (hash_password e
                                         (str_int (dt_microsecond request_time)))),
                        mb_name := nick,
                        mb_nick := nick,
                        mb_email := mf_mb_email mf,
                        mb_datetime := Some (dt_strftime request_time),
                        mb_today_login := Some (dt_strftime request_time),
                        mb_level := Some (cf_register_level c)\<rparr>
                 in
                 (d\<lparr>members := members d @ [new_member],
                    social_profiles := social_profiles d @ [member_social_profiles],
                    point_calls := point_calls d @
                      [\<lparr>po_mb_id = gnu_social_id,
                        po_point = cf_register_point c,
                        po_content = FirstLogin (dt_strftime request_time),
                        po_rel_table = ''@login'',
                        po_rel_id = gnu_social_id,
                        po_rel_action = MemberRegistration\<rparr>]\<rparr>,
                  Inr (RedirectResponse (Path ''/'') 302))))))"


section \<open>Administrator member form (\<^verbatim>\<open>_admin/admin_member.py\<close>)\<close>

text \<open>The form fields of \<^verbatim>\<open>member_form_update\<close>; the first two are required.\<close>

record update_form =
  f_mb_id :: string
  f_token :: string
  f_mb_password :: "string option"
  f_mb_name :: "string option"
  f_mb_nick :: "string option"
  f_mb_level :: "int option"
  f_mb_email :: "string option"
  f_mb_homepage :: "string option"
  f_mb_hp :: "string option"
  f_mb_tel :: "string option"
  f_mb_certify_case :: "string option"
  f_mb_certify :: "int option"
  f_mb_adult :: "int option"
  f_mb_zip :: "string option"
  f_mb_addr1 :: "string option"
  f_mb_addr2 :: "string option"
  f_mb_addr3 :: "string option"
  f_mb_mailling :: "int option"
  f_mb_sms :: "int option"
  f_mb_open :: "int option"
  f_mb_signature :: "string option"
  f_mb_profile :: "string option"
  f_mb_memo :: "string option"
  f_mb_intercept_date :: "string option"
  f_mb_leave_date :: "string option"
  f_mb_1 :: "string option"
  f_mb_2 :: "string option"
  f_mb_3 :: "string option"
  f_mb_4 :: "string option"
  f_mb_5 :: "string option"
  f_mb_6 :: "string option"
  f_mb_7 :: "string option"
  f_mb_8 :: "string option"
  f_mb_9 :: "string option"
  f_mb_10 :: "string option"

text \<open>\<^verbatim>\<open>member_form_add\<close>: the registration form clears the session marker.\<close>

definition member_form_add :: "env \<Rightarrow> session \<Rightarrow> session \<times> (error + response)" where
  "member_form_add e s =
     (s\<lparr>ss_member_form_mb_id := Some []\<rparr>,
      Inr (MemberFormTemplate None (hash_password e [])))"

text \<open>
  \<^verbatim>\<open>member_form_edit\<close>: the edit form stores the edited id in the session and hands
  out the hash of that id as the token.
\<close>

definition member_form_edit ::
  "env \<Rightarrow> db \<Rightarrow> session \<Rightarrow> string \<Rightarrow> session \<times> (error + response)" where
  "member_form_edit e d s edit_id =
     (case find (\<lambda>m. mb_id m = edit_id) (members d) of
        None \<Rightarrow> (s, Inl (HTTPException 404 IsNotFound))
      | Some m \<Rightarrow>
          (s\<lparr>ss_member_form_mb_id := Some edit_id\<rparr>,
           Inr (MemberFormTemplate (Some m) (hash_password e edit_id))))"

text \<open>\<^verbatim>\<open>mb_zip[:3] if mb_zip else ''\<close> and \<^verbatim>\<open>mb_zip[3:] if mb_zip else ''\<close>.\<close>

definition zip1_of :: "string option \<Rightarrow> string option" where
  "zip1_of z = (case z of Some v \<Rightarrow> if v \<noteq> [] then Some (take 3 v) else Some [] | None \<Rightarrow> Some [])"

definition zip2_of :: "string option \<Rightarrow> string option" where
  "zip2_of z = (case z of Some v \<Rightarrow> if v \<noteq> [] then Some (drop 3 v) else Some [] | None \<Rightarrow> Some [])"

text \<open>The branch of \<^verbatim>\<open>member_form_update\<close> that registers a new member.\<close>

definition member_insert :: "env \<Rightarrow> db \<Rightarrow> update_form \<Rightarrow> db \<times> (error + response)" where
  "member_insert e d f =
     (case find (\<lambda>m. mb_id m = f_mb_id f) (members d) of
        Some chk_member \<Rightarrow> (d, Inl (HTTPException 404 (MemberIdExists (f_mb_id f))))
      | None \<Rightarrow>
     (case find (\<lambda>m. mb_nick m = f_mb_nick f) (members d) of
        Some chk_member \<Rightarrow>
          (d, Inl (HTTPException 404 (NicknameExists (f_mb_nick f) (mb_id chk_member))))
      | None \<Rightarrow>
     (case find (\<lambda>m. mb_email m = f_mb_email f) (members d) of
        Some chk_member \<Rightarrow>
          (d, Inl (HTTPException 404 (MemberEmailExists (f_mb_email f) (mb_id chk_member))))
      | None \<Rightarrow>
        let certified = truthy_str (f_mb_certify_case f) \<and> truthy_int (f_mb_certify f);
            tmp_certify = (if certified then f_mb_certify_case f else Some []);
            tmp_adult = (if certified then f_mb_adult f else Some 0);
            hashed_password =
              (case f_mb_password f of
                 Some pw \<Rightarrow> if pw \<noteq> [] then hash_password e pw
                            else hash_password e (TIME_YMDHIS e)
               | None \<Rightarrow> hash_password e (TIME_YMDHIS e));
            new_member =
              \<lparr>mb_id = f_mb_id f,
               mb_password = Some hashed_password,
               mb_name = f_mb_name f,
               mb_nick = f_mb_nick f,
               mb_level = f_mb_level f,
               mb_nick_date = Some (TIME_YMDHIS e),
               mb_email = f_mb_email f,
               mb_homepage = f_mb_homepage f,
               mb_hp = f_mb_hp f,
               mb_tel = f_mb_tel f,
               mb_certify = tmp_certify,
               mb_adult = tmp_adult,
               mb_zip1 = zip1_of (f_mb_zip f),
               mb_zip2 = zip2_of (f_mb_zip f),
               mb_addr1 = f_mb_addr1 f,
               mb_addr2 = f_mb_addr2 f,
               mb_addr3 = f_mb_addr3 f,
               mb_mailling = f_mb_mailling f,
               mb_sms = f_mb_sms f,
               mb_open = f_mb_open f,
               mb_signature = f_mb_signature f,
               mb_profile = f_mb_profile f,
               mb_memo = f_mb_memo f,
               mb_intercept_date = f_mb_intercept_date f,
               mb_leave_date = f_mb_leave_date f,
               mb_1 = f_mb_1 f,
               mb_2 = f_mb_2 f,
               mb_3 = f_mb_3 f,
               mb_4 = f_mb_4 f,
               mb_5 = f_mb_5 f,
               mb_6 = f_mb_6 f,
               mb_7 = f_mb_7 f,
               mb_8 = f_mb_8 f,
               mb_9 = f_mb_9 f,
               mb_10 = f_mb_10 f,
               mb_today_login = Some (TIME_YMDHIS e),
               mb_datetime = Some (TIME_YMDHIS e)\<rparr>
        in (d\<lparr>members := members d @ [new_member]\<rparr>,
            Inr (RedirectResponse (Path (''/admin/member_form/'' @ f_mb_id f)) 302)))))"

text \<open>The assignments of the update branch to the row it has read.\<close>

definition overwrite_member :: "env \<Rightarrow> config \<Rightarrow> update_form \<Rightarrow> member \<Rightarrow> member" where
  "overwrite_member e c f m =
     m\<lparr>mb_password :=
         (case f_mb_password f of
            Some pw \<Rightarrow> if pw \<noteq> [] then Some (hash_password e pw) else mb_password m
          | None \<Rightarrow> mb_password m),
       mb_name := str_or_empty (f_mb_name f),
       mb_nick := str_or_empty (f_mb_nick f),
       mb_nick_date := (if truthy_str (f_mb_nick f) then Some (TIME_YMD e) else Some []),
       mb_email := str_or_empty (f_mb_email f),
       mb_homepage := str_or_empty (f_mb_homepage f),
       mb_level := int_or (f_mb_level f) (cf_register_level c),
       mb_hp := str_or_empty (f_mb_hp f),
       mb_tel := str_or_empty (f_mb_tel f),
       mb_certify :=
         (if truthy_str (f_mb_certify_case f) \<and> f_mb_certify f = Some 1
          then f_mb_certify_case f else Some []),
       mb_adult := int_or (f_mb_adult f) 0,
       mb_zip1 := zip1_of (f_mb_zip f),
       mb_zip2 := zip2_of (f_mb_zip f),
       mb_addr1 := str_or_empty (f_mb_addr1 f),
       mb_addr2 := str_or_empty (f_mb_addr2 f),
       mb_addr3 := str_or_empty (f_mb_addr3 f),
       mb_mailling := int_or (f_mb_mailling f) 0,
       mb_sms := int_or (f_mb_sms f) 0,
       mb_open := int_or (f_mb_open f) 0,
       mb_signature := str_or_empty (f_mb_signature f),
       mb_profile := str_or_empty (f_mb_profile f),
       mb_memo := str_or_empty (f_mb_memo f),
       mb_intercept_date := str_or_empty (f_mb_intercept_date f),
       mb_leave_date := str_or_empty (f_mb_leave_date f),
       mb_1 := str_or_empty (f_mb_1 f),
       mb_2 := str_or_empty (f_mb_2 f),
       mb_3 := str_or_empty (f_mb_3 f),
       mb_4 := str_or_empty (f_mb_4 f),
       mb_5 := str_or_empty (f_mb_5 f),
       mb_6 := str_or_empty (f_mb_6 f),
       mb_7 := str_or_empty (f_mb_7 f),
       mb_8 := str_or_empty (f_mb_8 f),
       mb_9 := str_or_empty (f_mb_9 f),
       mb_10 := str_or_empty (f_mb_10 f)\<rparr>"

text \<open>
  The branch of \<^verbatim>\<open>member_form_update\<close> that edits a member; its last argument is
  the session's edit target, read at the top of the handler.
\<close>

definition member_update ::
  "env \<Rightarrow> config \<Rightarrow> db \<Rightarrow> update_form \<Rightarrow> string \<Rightarrow> db \<times> (error + response)" where
  "member_update e c d f ss_member_form_mb_id_value =
     (if \<not> verify_password e (f_mb_id f) (f_token f) then
        (d, Inl (HTTPException 403 InvalidToken))
      else
     (case find (\<lambda>m. mb_id m \<noteq> f_mb_id f \<and> mb_nick m = f_mb_nick f) (members d) of
        Some chk_member \<Rightarrow>
          (d, Inl (HTTPException 404 (NicknameExists (f_mb_nick f) (mb_id chk_member))))
      | None \<Rightarrow>
     (case find (\<lambda>m. mb_id m \<noteq> f_mb_id f \<and> mb_email m = f_mb_email f) (members d) of
        Some chk_member \<Rightarrow>
          (d, Inl (HTTPException 404 (MemberEmailExists (f_mb_email f) (mb_id chk_member))))
      | None \<Rightarrow>
     (case find (\<lambda>m. mb_id m = ss_member_form_mb_id_value) (members d) of
        None \<Rightarrow> (d, Inl (HTTPException 404 (MemberIdMissing (f_mb_id f))))
      | Some m \<Rightarrow>
          (d\<lparr>members :=
               update_first (\<lambda>m. mb_id m = ss_member_form_mb_id_value)
                 (overwrite_member e c f) (members d)\<rparr>,
           Inr (RedirectResponse
                  (Path (''/admin/member_form/'' @ ss_member_form_mb_id_value)) 302))))))"

text \<open>
  \<^verbatim>\<open>member_form_update\<close>: the session value is read with the default \<^verbatim>\<open>""\<close>, and
  the token decides the branch.
\<close>

definition member_form_update ::
  "env \<Rightarrow> config \<Rightarrow> db \<Rightarrow> session \<Rightarrow> update_form \<Rightarrow> db \<times> (error + response)" where
  "member_form_update e c d s f =
     (let ss_member_form_mb_id_value =
            (case ss_member_form_mb_id s of Some v \<Rightarrow> v | None \<Rightarrow> [])
      in if \<not> verify_password e (f_mb_id f) (f_token f)
         then member_insert e d f
         else member_update e c d f ss_member_form_mb_id_value)"

section \<open>Concrete inputs\<close>

text \<open>
  A small world on which the statements below are evaluated: collaborators with simple
  behaviour (the hash of a password is the password after a number sign), two members and
  an empty form.
\<close>

definition example_profile :: social_profile where
  "example_profile =
     \<lparr>sp_mb_id = None, sp_provider = ''naver'', sp_identifier = ''12345'',
      sp_nickname = Some ''neo'', sp_profile_url = Some ''https://example.com/neo'',
      sp_photourl = None, sp_object_sha = None, sp_mp_register_day = None\<rparr>"

definition example_env :: env where
  "example_env =
     \<lparr>hash_password = (\<lambda>pw. ''#'' @ pw),
      verify_password = (\<lambda>pw h. h = ''#'' @ pw),
      TIME_YMDHIS = ''2024-01-01 00:00:00'',
      TIME_YMD = ''2024-01-01'',
      validate_userid = (\<lambda>v prohibited. if v = prohibited then ''prohibited'' else []),
      valid_email = (\<lambda>v. case v of Some a \<Rightarrow> CHR ''@'' \<in> set a | None \<Rightarrow> False),
      validate_nickname = (\<lambda>v prohibited. if v = Some prohibited then ''prohibited'' else []),
      session_member_key = (\<lambda>i t. ''key:'' @ i),
      get_social_login_token = (\<lambda>p. Some ''token''),
      get_social_profile = (\<lambda>t p. ''raw''),
      providers = (\<lambda>p. if p = ''naver'' then Some (\<lambda>r. (Some ''neo@example.com'', example_profile))
                       else None)\<rparr>"

definition example_config :: config where
  "example_config =
     \<lparr>cf_social_login_use = 1, cf_prohibit_id = ''admin'', cf_register_level = 2,
      cf_register_point = 1000\<rparr>"

definition example_session :: session where
  "example_session =
     \<lparr>ss_social_access = None, ss_social_provider = None, ss_social_email = None,
      ss_social_link = False, ss_mb_id = None, ss_mb_key = None,
      ss_member_form_mb_id = None\<rparr>"

definition example_form :: update_form where
  "example_form =
     \<lparr>f_mb_id = [], f_token = [], f_mb_password = None, f_mb_name = None, f_mb_nick = None,
      f_mb_level = None, f_mb_email = None, f_mb_homepage = None, f_mb_hp = None,
      f_mb_tel = None, f_mb_certify_case = None, f_mb_certify = None, f_mb_adult = None,
      f_mb_zip = None, f_mb_addr1 = None, f_mb_addr2 = None, f_mb_addr3 = None,
      f_mb_mailling = None, f_mb_sms = None, f_mb_open = None, f_mb_signature = None,
      f_mb_profile = None, f_mb_memo = None, f_mb_intercept_date = None,
      f_mb_leave_date = None, f_mb_1 = None, f_mb_2 = None, f_mb_3 = None, f_mb_4 = None,
      f_mb_5 = None, f_mb_6 = None, f_mb_7 = None, f_mb_8 = None, f_mb_9 = None,
      f_mb_10 = None\<rparr>"

definition alice :: member where
  "alice = empty_member\<lparr>mb_id := ''alice'', mb_nick := Some ''al'',
     mb_email := Some ''alice@example.com'', mb_level := Some 5\<rparr>"

definition bob :: member where
  "bob = empty_member\<lparr>mb_id := ''bob'', mb_nick := Some ''bobby'',
     mb_email := Some ''bob@example.com'', mb_level := Some 7\<rparr>"

definition example_db :: db where
  "example_db = \<lparr>members = [alice, bob], social_profiles = [], point_calls = []\<rparr>"

section \<open>Facts about the identity hasher\<close>

lemma md5_12345: "md5_hexdigest (encode ''12345'') = ''827ccb0eea8a706c4c34a16891f84e7b''"
  by code_simp

lemma adler_12345: "adler32 (encode ''827ccb0eea8a706c4c34a16891f84e7b'') = 2525825270"
  by code_simp

lemma hex_digits_12345: "hex_digits 2525825270 = ''968d08f6''"
  by code_simp

lemma hex_py_nonneg: "0 \<le> n \<Longrightarrow> drop 2 (hex_py n) = hex_digits n"
  by (simp add: hex_py_def)

lemma hex_digits_0: "hex_digits 0 = ''0''"
  by code_simp

lemma hex_digit_table:
  "list_all (\<lambda>k. hex_digit_value (hex_digit k) = int k \<and> (hex_digit k = CHR ''0'' \<longleftrightarrow> k = 0)) [0..<16]"
  by code_simp

lemma hex_digit_facts:
  assumes "k < 16"
  shows "hex_digit_value (hex_digit k) = int k \<and> (hex_digit k = CHR ''0'' \<longleftrightarrow> k = 0)"
proof -
  from assms have "k \<in> set [0..<16]" by simp
  with hex_digit_table [unfolded list_all_iff] show ?thesis by (rule bspec)
qed

lemma hex_digit_value_hex_digit: "k < 16 \<Longrightarrow> hex_digit_value (hex_digit k) = int k"
  by (rule hex_digit_facts [THEN conjunct1])

lemma hex_digit_in_set: "k < 16 \<Longrightarrow> hex_digit k \<in> set ''0123456789abcdef''"
  unfolding hex_digit_def by (rule nth_mem) simp

lemma hex_digit_zero_iff: "k < 16 \<Longrightarrow> hex_digit k = CHR ''0'' \<longleftrightarrow> k = 0"
  by (rule hex_digit_facts [THEN conjunct2])

lemma hex_digits_nonempty: "hex_digits n \<noteq> []"
  by (subst hex_digits.simps) simp

lemma hex_digits_charset: "set (hex_digits n) \<subseteq> set ''0123456789abcdef''"
proof (induction n rule: hex_digits.induct)
  case (1 n)
  show ?case
  proof (cases "n < 16")
    case True
    then have "nat n < 16" by simp
    from hex_digit_in_set [OF this] True show ?thesis
      by (subst hex_digits.simps) simp
  next
    case False
    then have "nat (n mod 16) < 16" by simp
    from hex_digit_in_set [OF this] False "1.IH" show ?thesis
      by (subst hex_digits.simps) simp
  qed
qed

lemma hex_value_snoc: "hex_value (s @ [c]) = 16 * hex_value s + hex_digit_value c"
  by (simp add: hex_value_def)

lemma hex_value_hex_digits: "0 \<le> n \<Longrightarrow> hex_value (hex_digits n) = n"
proof (induction n rule: hex_digits.induct)
  case (1 n)
  show ?case
  proof (cases "n < 16")
    case True
    with "1.prems" have "nat n < 16" by simp
    from hex_digit_value_hex_digit [OF this] True "1.prems" show ?thesis
      by (subst hex_digits.simps) (simp add: hex_value_def)
  next
    case False
    then have k: "nat (n mod 16) < 16" by simp
    from False "1.prems" have "hex_value (hex_digits (n div 16)) = n div 16"
      by (intro "1.IH") simp_all
    with hex_digit_value_hex_digit [OF k] False show ?thesis
      by (subst hex_digits.simps) (simp add: hex_value_snoc)
  qed
qed

lemma hd_hex_digits: "0 < n \<Longrightarrow> hd (hex_digits n) \<noteq> CHR ''0''"
proof (induction n rule: hex_digits.induct)
  case (1 n)
  show ?case
  proof (cases "n < 16")
    case True
    with "1.prems" have "nat n < 16" "nat n \<noteq> 0" by simp_all
    with hex_digit_zero_iff [of "nat n"] True show ?thesis
      by (subst hex_digits.simps) simp
  next
    case False
    with "1.prems" have "hd (hex_digits (n div 16)) \<noteq> CHR ''0''"
      by (intro "1.IH") simp_all
    with False hex_digits_nonempty [of "n div 16"] show ?thesis
      by (subst hex_digits.simps) simp
  qed
qed

lemma adler32_fold_bounds:
  "0 \<le> a \<Longrightarrow> a < 65521 \<Longrightarrow> 0 \<le> b \<Longrightarrow> b < 65521 \<Longrightarrow>
   foldl adler32_step (a, b) bs = (a', b') \<Longrightarrow>
   0 \<le> a' \<and> a' < 65521 \<and> 0 \<le> b' \<and> b' < 65521"
proof (induction bs arbitrary: a b)
  case Nil
  then show ?case by simp
next
  case (Cons x xs)
  from Cons.prems(5) have
    "foldl adler32_step ((a + uint x) mod 65521, (b + (a + uint x) mod 65521) mod 65521) xs = (a', b')"
    by simp
  then show ?case
    by (rule Cons.IH [rotated -1]) simp_all
qed

lemma adler32_range: "0 \<le> adler32 bs \<and> adler32 bs < 2 ^ 32"
proof -
  obtain a b where ab: "foldl adler32_step (1, 0) bs = (a, b)"
    by (cases "foldl adler32_step (1, 0) bs")
  have "0 \<le> a \<and> a < 65521 \<and> 0 \<le> b \<and> b < 65521"
    by (rule adler32_fold_bounds [OF _ _ _ _ ab]) simp_all
  then show ?thesis
    by (simp add: adler32_def ab)
qed

lemma length_hex_byte: "length (hex_byte b) = 2"
  by (simp add: hex_byte_def)

lemma length_concat_hex: "length (concat (map hex_byte bs)) = 2 * length bs"
  by (induction bs) (simp_all add: length_hex_byte)

lemma length_md5_digest: "length (md5_digest bs) = 16"
  by (simp add: md5_digest_def le_bytes32_def split: prod.splits)

lemma length_md5_hexdigest: "length (md5_hexdigest bs) = 32"
  by (simp add: md5_hexdigest_def length_concat_hex length_md5_digest)

lemma hex_byte_charset: "set (hex_byte b) \<subseteq> set ''0123456789abcdef''"
proof -
  have "unat b < 2 ^ 8"
    using unsigned_less [of b] by simp
  then have "unat b div 16 < 16" by simp
  then have hi: "unat (drop_bit 4 b) < 16"
    by (simp add: unat_drop_bit_eq drop_bit_eq_div unat_div)
  have "unat (b AND 15) \<le> unat (15 :: u8)"
    by (rule word_and_le1 [THEN word_le_nat_alt [THEN iffD1]])
  then have lo: "unat (b AND 15) < 16" by simp
  from hex_digit_in_set [OF hi] hex_digit_in_set [OF lo] show ?thesis
    by (simp add: hex_byte_def)
qed

lemma concat_hex_byte_charset: "set (concat (map hex_byte xs)) \<subseteq> set ''0123456789abcdef''"
proof (induction xs)
  case Nil
  show ?case by simp
next
  case (Cons x xs)
  with hex_byte_charset [of x] show ?case
    by simp
qed

lemma md5_hexdigest_charset: "set (md5_hexdigest bs) \<subseteq> set ''0123456789abcdef''"
  unfolding md5_hexdigest_def by (rule concat_hex_byte_charset)

section \<open>Facts about the administrator member form\<close>

lemma find_update_first:
  "(\<And>x. P x \<Longrightarrow> P (f x)) \<Longrightarrow> find P (update_first P f xs) = map_option f (find P xs)"
  by (induction xs) simp_all

lemma filter_update_first:
  "(\<And>x. P x \<Longrightarrow> P (f x)) \<Longrightarrow>
   filter (\<lambda>x. \<not> P x) (update_first P f xs) = filter (\<lambda>x. \<not> P x) xs"
  by (induction xs) simp_all

lemma map_update_first:
  "(\<And>x. g (f x) = g x) \<Longrightarrow> map g (update_first P f xs) = map g xs"
  by (induction xs) simp_all

lemma mb_id_overwrite_member: "mb_id (overwrite_member e c f m) = mb_id m"
  by (simp add: overwrite_member_def)

lemma mb_level_overwrite_member:
  "mb_level (overwrite_member e c f m) = int_or (f_mb_level f) (cf_register_level c)"
  by (simp add: overwrite_member_def)

lemma mb_nick_overwrite_member:
  "mb_nick (overwrite_member e c f m) = str_or_empty (f_mb_nick f)"
  by (simp add: overwrite_member_def)

lemma find_Some_ex: "(\<exists>x. find P xs = Some x) \<longleftrightarrow> (\<exists>x\<in>set xs. P x)"
  by (induction xs) auto

lemma member_insert_members:
  "take (length (members d)) (members (fst (member_insert e d f))) = members d"
  by (simp add: member_insert_def Let_def split: option.splits)

lemma member_update_ids:
  "map mb_id (members (fst (member_update e c d f v))) = map mb_id (members d)"
  by (simp add: member_update_def map_update_first mb_id_overwrite_member split: option.splits)

lemma member_update_success:
  assumes "member_update e c d f v = (d', Inr r)"
  shows "\<exists>m. find (\<lambda>x. mb_id x = v) (members d) = Some m
           \<and> d' = d\<lparr>members := update_first (\<lambda>x. mb_id x = v) (overwrite_member e c f) (members d)\<rparr>
           \<and> r = RedirectResponse (Path (''/admin/member_form/'' @ v)) 302"
  using assms by (auto simp: member_update_def split: if_splits option.splits)

lemma find_overwritten:
  "find (\<lambda>x. mb_id x = v) (update_first (\<lambda>x. mb_id x = v) (overwrite_member e c f) xs)
     = map_option (overwrite_member e c f) (find (\<lambda>x. mb_id x = v) xs)"
  by (rule find_update_first) (simp add: mb_id_overwrite_member)

lemma others_kept:
  "filter (\<lambda>x. mb_id x \<noteq> v) (update_first (\<lambda>x. mb_id x = v) (overwrite_member e c f) xs)
     = filter (\<lambda>x. mb_id x \<noteq> v) xs"
  using filter_update_first [of "\<lambda>x. mb_id x = v" "overwrite_member e c f" xs]
  by (simp add: mb_id_overwrite_member)

lemmas example_defs =
  example_env_def example_config_def example_session_def example_form_def alice_def bob_def
  example_db_def empty_member_def

section \<open>Claims about the identity hasher\<close>

text \<open>
  Claim C1. For every identifier and provider, \<open>g5_convert_social_id\<close> is the provider
  name, an underscore, and the Adler-32 checksum of the lowercase hexadecimal MD5 digest of
  the identifier, rendered in lowercase hexadecimal without the \<^verbatim>\<open>0x\<close> prefix and
  without zero padding: the rendering uses hexadecimal digits only, starts with the digit 0
  only when it is the single digit 0, and reads back as the checksum, which is a 32-bit
  value of a 32-character lowercase hexadecimal digest. For the identifier 12345 and the
  provider naver the result is the literal \<^verbatim>\<open>naver_968d08f6\<close>.
\<close>

theorem g5_convert_social_id_composition:
  "g5_convert_social_id identifier provider =
     provider @ ''_'' @ hex_digits (adler32 (encode (md5_hexdigest (encode identifier))))
   \<and> set (hex_digits (adler32 (encode (md5_hexdigest (encode identifier)))))
       \<subseteq> set ''0123456789abcdef''
   \<and> (hd (hex_digits (adler32 (encode (md5_hexdigest (encode identifier))))) = CHR ''0''
       \<longrightarrow> hex_digits (adler32 (encode (md5_hexdigest (encode identifier)))) = ''0'')
   \<and> hex_value (hex_digits (adler32 (encode (md5_hexdigest (encode identifier)))))
       = adler32 (encode (md5_hexdigest (encode identifier)))
   \<and> 0 \<le> adler32 (encode (md5_hexdigest (encode identifier)))
   \<and> adler32 (encode (md5_hexdigest (encode identifier))) < 2 ^ 32
   \<and> length (md5_hexdigest (encode identifier)) = 32
   \<and> set (md5_hexdigest (encode identifier)) \<subseteq> set ''0123456789abcdef''
   \<and> g5_convert_social_id ''12345'' ''naver'' = ''naver_968d08f6''"
proof -
  let ?h = "md5_hexdigest (encode identifier)"
  let ?c = "adler32 (encode ?h)"
  have nonneg: "0 \<le> ?c" and bound: "?c < 2 ^ 32"
    using adler32_range [of "encode ?h"] by simp_all
  have eq: "g5_convert_social_id identifier provider = provider @ ''_'' @ hex_digits ?c"
    using nonneg by (simp add: g5_convert_social_id_def Let_def hex_py_nonneg)
  have cs: "set (hex_digits ?c) \<subseteq> set ''0123456789abcdef''"
    by (rule hex_digits_charset)
  have pad: "hd (hex_digits ?c) = CHR ''0'' \<longrightarrow> hex_digits ?c = ''0''"
  proof (cases "?c = 0")
    case True
    then show ?thesis by (simp add: hex_digits_0)
  next
    case False
    with nonneg have "0 < ?c" by simp
    then show ?thesis by (simp add: hd_hex_digits)
  qed
  have hv: "hex_value (hex_digits ?c) = ?c"
    using nonneg by (rule hex_value_hex_digits)
  have len: "length ?h = 32"
    by (rule length_md5_hexdigest)
  have mcs: "set ?h \<subseteq> set ''0123456789abcdef''"
    by (rule md5_hexdigest_charset)
  have lit: "g5_convert_social_id ''12345'' ''naver'' = ''naver_968d08f6''"
    by (simp add: g5_convert_social_id_def Let_def md5_12345 adler_12345 hex_py_nonneg
        hex_digits_12345)
  show ?thesis
    by (intro conjI eq cs pad hv nonneg bound len mcs lit)
qed

theorem g5_convert_social_id_composition_witness:
  "g5_convert_social_id ''12345'' ''naver'' = ''naver_'' @ hex_digits 2525825270
   \<and> hd (hex_digits 2525825270) \<noteq> CHR ''0''
   \<and> hex_value (hex_digits 2525825270) = 2525825270"
  using g5_convert_social_id_composition [of "''12345''" "''naver''"]
  by (simp add: md5_12345 adler_12345 hex_digits_12345)

section \<open>Claims about the administrator member form\<close>

text \<open>
  Claim C5, as the code has it. The branch of \<open>member_form_update\<close> is chosen by the
  token alone: when the submitted token does not verify against the submitted member id,
  the insert branch runs whatever the session holds, and it leaves every stored row as it
  is; when the token verifies, the update branch runs on the row named by the session
  marker, and it neither adds nor removes a row nor changes a member id.
\<close>

theorem member_form_update_branch_by_token:
  "(\<not> verify_password e (f_mb_id f) (f_token f) \<longrightarrow>
      member_form_update e c d s f = member_insert e d f
      \<and> member_form_update e c d s f = member_form_update e c d s' f
      \<and> take (length (members d)) (members (fst (member_form_update e c d s f))) = members d)
   \<and> (verify_password e (f_mb_id f) (f_token f) \<longrightarrow>
      member_form_update e c d s f =
        member_update e c d f (case ss_member_form_mb_id s of Some v \<Rightarrow> v | None \<Rightarrow> [])
      \<and> map mb_id (members (fst (member_form_update e c d s f))) = map mb_id (members d))"
  by (simp add: member_form_update_def member_insert_members member_update_ids)

theorem member_form_update_branch_by_token_witness:
  "\<not> verify_password example_env ''carol'' ''bad''
   \<and> take 2 (members (fst (member_form_update example_env example_config example_db
        (example_session\<lparr>ss_member_form_mb_id := Some ''alice''\<rparr>)
        (example_form\<lparr>f_mb_id := ''carol'', f_token := ''bad''\<rparr>)))) = [alice, bob]
   \<and> verify_password example_env ''alice'' ''#alice''
   \<and> map mb_id (members (fst (member_form_update example_env example_config example_db
        (example_session\<lparr>ss_member_form_mb_id := Some ''alice''\<rparr>)
        (example_form\<lparr>f_mb_id := ''alice'', f_token := ''#alice''\<rparr>)))) = [''alice'', ''bob'']"
proof -
  let ?s = "example_session\<lparr>ss_member_form_mb_id := Some ''alice''\<rparr>"
  let ?f1 = "example_form\<lparr>f_mb_id := ''carol'', f_token := ''bad''\<rparr>"
  let ?f2 = "example_form\<lparr>f_mb_id := ''alice'', f_token := ''#alice''\<rparr>"
  have v1: "\<not> verify_password example_env (f_mb_id ?f1) (f_token ?f1)"
    by (simp add: example_env_def)
  have v2: "verify_password example_env (f_mb_id ?f2) (f_token ?f2)"
    by (simp add: example_env_def)
  from member_form_update_branch_by_token
         [of example_env ?f1 example_config example_db ?s example_session] v1
  have r1: "take (length (members example_db))
              (members (fst (member_form_update example_env example_config example_db ?s ?f1)))
            = members example_db"
    by blast
  from member_form_update_branch_by_token
         [of example_env ?f2 example_config example_db ?s example_session] v2
  have r2: "map mb_id
              (members (fst (member_form_update example_env example_config example_db ?s ?f2)))
            = map mb_id (members example_db)"
    by blast
  have m: "members example_db = [alice, bob]"
    by (simp add: example_db_def)
  have ids: "map mb_id [alice, bob] = [''alice'', ''bob'']"
    by (simp add: alice_def bob_def)
  from r1 r2 v1 v2 show ?thesis
    unfolding m ids by (simp add: numeral_2_eq_2)
qed


text \<open>
  The session marker does not choose the branch. With the marker present and a token that
  does not verify, the handler registers the new member carol; with the marker absent and
  a token that verifies, the handler runs the update branch, which finds no row to edit,
  where the insert branch would have reported a duplicate id.
\<close>

theorem session_marker_does_not_choose_branch:
  "ss_member_form_mb_id (example_session\<lparr>ss_member_form_mb_id := Some ''alice''\<rparr>) = Some ''alice''
   \<and> member_form_update example_env example_config example_db
        (example_session\<lparr>ss_member_form_mb_id := Some ''alice''\<rparr>)
        (example_form\<lparr>f_mb_id := ''carol'', f_token := ''bad''\<rparr>)
       = member_insert example_env example_db (example_form\<lparr>f_mb_id := ''carol'', f_token := ''bad''\<rparr>)
   \<and> map mb_id (members (fst (member_form_update example_env example_config example_db
        (example_session\<lparr>ss_member_form_mb_id := Some ''alice''\<rparr>)
        (example_form\<lparr>f_mb_id := ''carol'', f_token := ''bad''\<rparr>))))
       = [''alice'', ''bob'', ''carol'']
   \<and> ss_member_form_mb_id example_session = None
   \<and> member_form_update example_env example_config example_db example_session
        (example_form\<lparr>f_mb_id := ''alice'', f_token := ''#alice''\<rparr>)
       = (example_db, Inl (HTTPException 404 (MemberIdMissing ''alice'')))
   \<and> member_insert example_env example_db (example_form\<lparr>f_mb_id := ''alice'', f_token := ''#alice''\<rparr>)
       = (example_db, Inl (HTTPException 404 (MemberIdExists ''alice'')))"
  by (simp add: member_form_update_def member_insert_def member_update_def Let_def
      truthy_str_def truthy_int_def zip1_of_def zip2_of_def example_defs)

text \<open>
  Claim C6. When the submitted token does not verify against the submitted member id, the
  insert branch is taken, and if a member with the submitted id exists the request fails
  with the duplicate-id error and the database is unchanged.
\<close>

theorem tampered_token_duplicate_id:
  assumes "\<not> verify_password e (f_mb_id f) (f_token f)"
  shows "member_form_update e c d s f = member_insert e d f
     \<and> ((\<exists>m\<in>set (members d). mb_id m = f_mb_id f) \<longrightarrow>
          member_form_update e c d s f =
            (d, Inl (HTTPException 404 (MemberIdExists (f_mb_id f)))))"
proof -
  have eq: "member_form_update e c d s f = member_insert e d f"
    using assms by (simp add: member_form_update_def)
  have "member_insert e d f = (d, Inl (HTTPException 404 (MemberIdExists (f_mb_id f))))"
    if "\<exists>m\<in>set (members d). mb_id m = f_mb_id f"
  proof -
    from that obtain x where "find (\<lambda>m. mb_id m = f_mb_id f) (members d) = Some x"
      using find_Some_ex [of "\<lambda>m. mb_id m = f_mb_id f" "members d"] by blast
    then show ?thesis by (simp add: member_insert_def)
  qed
  with eq show ?thesis by simp
qed


theorem tampered_token_duplicate_id_witness:
  "\<not> verify_password example_env ''alice'' ''#bob''
   \<and> member_form_update example_env example_config example_db
        (example_session\<lparr>ss_member_form_mb_id := Some ''alice''\<rparr>)
        (example_form\<lparr>f_mb_id := ''alice'', f_token := ''#bob''\<rparr>)
       = (example_db, Inl (HTTPException 404 (MemberIdExists ''alice'')))"
proof -
  let ?f = "example_form\<lparr>f_mb_id := ''alice'', f_token := ''#bob''\<rparr>"
  have v: "\<not> verify_password example_env (f_mb_id ?f) (f_token ?f)"
    by (simp add: example_env_def)
  have ex: "\<exists>m\<in>set (members example_db). mb_id m = f_mb_id ?f"
    by (simp add: example_db_def alice_def)
  from tampered_token_duplicate_id [OF v] ex
  have "member_form_update example_env example_config example_db
          (example_session\<lparr>ss_member_form_mb_id := Some ''alice''\<rparr>) ?f
        = (example_db, Inl (HTTPException 404 (MemberIdExists (f_mb_id ?f))))"
    by blast
  with v show ?thesis by simp
qed

text \<open>
  Claim C7. On a successful update (the token verifies and the handler redirects), the
  stored row of the edit target has the process-wide default registration level when the
  level field is omitted (or zero), and the submitted level otherwise; its nickname is the
  empty string when the nickname field is omitted, and the submitted nickname otherwise.
\<close>

theorem update_level_default_nickname_cleared:
  assumes "verify_password e (f_mb_id f) (f_token f)"
    and "member_form_update e c d s f = (d', Inr r)"
  shows "\<exists>m'. find (\<lambda>x. mb_id x = (case ss_member_form_mb_id s of Some v \<Rightarrow> v | None \<Rightarrow> []))
                (members d') = Some m'
           \<and> (f_mb_level f = None \<longrightarrow> mb_level m' = Some (cf_register_level c))
           \<and> (f_mb_level f = Some 0 \<longrightarrow> mb_level m' = Some (cf_register_level c))
           \<and> (\<forall>l. f_mb_level f = Some l \<and> l \<noteq> 0 \<longrightarrow> mb_level m' = Some l)
           \<and> (f_mb_nick f = None \<longrightarrow> mb_nick m' = Some [])
           \<and> (\<forall>n. f_mb_nick f = Some n \<longrightarrow> mb_nick m' = Some n)"
proof -
  let ?v = "case ss_member_form_mb_id s of Some v \<Rightarrow> v | None \<Rightarrow> []"
  from assms have "member_update e c d f ?v = (d', Inr r)"
    by (simp add: member_form_update_def)
  from member_update_success [OF this] obtain m where
    m: "find (\<lambda>x. mb_id x = ?v) (members d) = Some m" and
    d': "d' = d\<lparr>members := update_first (\<lambda>x. mb_id x = ?v) (overwrite_member e c f) (members d)\<rparr>"
    by blast
  have "find (\<lambda>x. mb_id x = ?v) (members d') = Some (overwrite_member e c f m)"
    by (simp add: d' find_overwritten m)
  then show ?thesis
    by (auto simp: mb_level_overwrite_member mb_nick_overwrite_member int_or_def str_or_empty_def
        truthy_int_def truthy_str_def)
qed


theorem update_level_default_nickname_cleared_witness:
  "verify_password example_env ''alice'' ''#alice''
   \<and> map_option mb_level (find (\<lambda>x. mb_id x = ''alice'')
         (members (fst (member_form_update example_env example_config example_db
            (example_session\<lparr>ss_member_form_mb_id := Some ''alice''\<rparr>)
            (example_form\<lparr>f_mb_id := ''alice'', f_token := ''#alice''\<rparr>)))))
       = Some (Some 2)
   \<and> map_option mb_nick (find (\<lambda>x. mb_id x = ''alice'')
         (members (fst (member_form_update example_env example_config example_db
            (example_session\<lparr>ss_member_form_mb_id := Some ''alice''\<rparr>)
            (example_form\<lparr>f_mb_id := ''alice'', f_token := ''#alice''\<rparr>)))))
       = Some (Some [])"
proof -
  let ?s = "example_session\<lparr>ss_member_form_mb_id := Some ''alice''\<rparr>"
  let ?f = "example_form\<lparr>f_mb_id := ''alice'', f_token := ''#alice''\<rparr>"
  let ?run = "member_form_update example_env example_config example_db ?s ?f"
  have v: "verify_password example_env (f_mb_id ?f) (f_token ?f)"
    by (simp add: example_env_def)
  have "snd ?run = Inr (RedirectResponse (Path ''/admin/member_form/alice'') 302)"
    by (simp add: member_form_update_def member_update_def Let_def example_defs)
  then have run: "?run = (fst ?run, Inr (RedirectResponse (Path ''/admin/member_form/alice'') 302))"
    by (simp add: prod_eq_iff)
  have omitted: "f_mb_level ?f = None" "f_mb_nick ?f = None"
    by (simp_all add: example_form_def)
  have sid: "(case ss_member_form_mb_id ?s of Some v \<Rightarrow> v | None \<Rightarrow> []) = ''alice''"
    by simp
  have c: "cf_register_level example_config = 2"
    by (simp add: example_config_def)
  from update_level_default_nickname_cleared [OF v run] obtain m' where
    "find (\<lambda>x. mb_id x = ''alice'') (members (fst ?run)) = Some m'"
    "mb_level m' = Some 2" "mb_nick m' = Some []"
    unfolding sid c using omitted by blast
  with v show ?thesis by simp
qed

text \<open>
  Claim C10. On the update path (the token verifies against the submitted member id and
  the session holds an edit target), the nickname and email collision checks range over
  the rows whose id differs from the submitted id; when they pass, the row that is read and
  overwritten is the one whose id is the session's edit target, every other row and every
  social profile is left unchanged, and the redirect names the session's edit target; when
  no such row exists the error names the submitted id.
\<close>

theorem update_targets_session_id:
  assumes "verify_password e (f_mb_id f) (f_token f)"
    and "ss_member_form_mb_id s = Some sid"
  shows "((\<exists>m\<in>set (members d). mb_id m \<noteq> f_mb_id f \<and> mb_nick m = f_mb_nick f) \<longrightarrow>
            (\<exists>owner. member_form_update e c d s f =
               (d, Inl (HTTPException 404 (NicknameExists (f_mb_nick f) owner)))))
       \<and> (\<not> (\<exists>m\<in>set (members d). mb_id m \<noteq> f_mb_id f \<and> mb_nick m = f_mb_nick f)
            \<and> (\<exists>m\<in>set (members d). mb_id m \<noteq> f_mb_id f \<and> mb_email m = f_mb_email f) \<longrightarrow>
            (\<exists>owner. member_form_update e c d s f =
               (d, Inl (HTTPException 404 (MemberEmailExists (f_mb_email f) owner)))))
       \<and> (\<not> (\<exists>m\<in>set (members d). mb_id m \<noteq> f_mb_id f \<and> mb_nick m = f_mb_nick f)
            \<and> \<not> (\<exists>m\<in>set (members d). mb_id m \<noteq> f_mb_id f \<and> mb_email m = f_mb_email f) \<longrightarrow>
            (find (\<lambda>x. mb_id x = sid) (members d) = None \<longrightarrow>
               member_form_update e c d s f =
                 (d, Inl (HTTPException 404 (MemberIdMissing (f_mb_id f)))))
            \<and> (\<forall>m. find (\<lambda>x. mb_id x = sid) (members d) = Some m \<longrightarrow>
                 snd (member_form_update e c d s f) =
                   Inr (RedirectResponse (Path (''/admin/member_form/'' @ sid)) 302)
                 \<and> find (\<lambda>x. mb_id x = sid) (members (fst (member_form_update e c d s f)))
                     = Some (overwrite_member e c f m)
                 \<and> filter (\<lambda>x. mb_id x \<noteq> sid) (members (fst (member_form_update e c d s f)))
                     = filter (\<lambda>x. mb_id x \<noteq> sid) (members d)
                 \<and> social_profiles (fst (member_form_update e c d s f)) = social_profiles d))"
proof -
  let ?nick = "\<lambda>m. mb_id m \<noteq> f_mb_id f \<and> mb_nick m = f_mb_nick f"
  let ?email = "\<lambda>m. mb_id m \<noteq> f_mb_id f \<and> mb_email m = f_mb_email f"
  have run: "member_form_update e c d s f = member_update e c d f sid"
    using assms by (simp add: member_form_update_def)
  have nick_ex: "(\<exists>m\<in>set (members d). ?nick m) \<longleftrightarrow> (\<exists>x. find ?nick (members d) = Some x)"
    by (rule find_Some_ex [symmetric])
  have email_ex: "(\<exists>m\<in>set (members d). ?email m) \<longleftrightarrow> (\<exists>x. find ?email (members d) = Some x)"
    by (rule find_Some_ex [symmetric])
  show ?thesis
    unfolding run nick_ex email_ex
    using assms(1)
    by (auto simp: member_update_def find_overwritten others_kept split: option.splits)
qed


theorem update_targets_session_id_witness:
  "verify_password example_env ''bob'' ''#bob''
   \<and> snd (member_form_update example_env example_config example_db
          (example_session\<lparr>ss_member_form_mb_id := Some ''alice''\<rparr>)
          (example_form\<lparr>f_mb_id := ''bob'', f_token := ''#bob'', f_mb_nick := Some ''bobby''\<rparr>))
       = Inr (RedirectResponse (Path ''/admin/member_form/alice'') 302)
   \<and> map_option mb_nick (find (\<lambda>x. mb_id x = ''alice'')
         (members (fst (member_form_update example_env example_config example_db
            (example_session\<lparr>ss_member_form_mb_id := Some ''alice''\<rparr>)
            (example_form\<lparr>f_mb_id := ''bob'', f_token := ''#bob'', f_mb_nick := Some ''bobby''\<rparr>)))))
       = Some (Some ''bobby'')
   \<and> filter (\<lambda>x. mb_id x \<noteq> ''alice'')
         (members (fst (member_form_update example_env example_config example_db
            (example_session\<lparr>ss_member_form_mb_id := Some ''alice''\<rparr>)
            (example_form\<lparr>f_mb_id := ''bob'', f_token := ''#bob'', f_mb_nick := Some ''bobby''\<rparr>))))
       = [bob]"
proof -
  let ?s = "example_session\<lparr>ss_member_form_mb_id := Some ''alice''\<rparr>"
  let ?f = "example_form\<lparr>f_mb_id := ''bob'', f_token := ''#bob'', f_mb_nick := Some ''bobby''\<rparr>"
  let ?run = "member_form_update example_env example_config example_db ?s ?f"
  have v: "verify_password example_env (f_mb_id ?f) (f_token ?f)"
    by (simp add: example_env_def)
  have marker: "ss_member_form_mb_id ?s = Some ''alice''"
    by simp
  have nick: "\<not> (\<exists>m\<in>set (members example_db). mb_id m \<noteq> f_mb_id ?f \<and> mb_nick m = f_mb_nick ?f)"
    by (simp add: example_db_def alice_def bob_def)
  have email: "\<not> (\<exists>m\<in>set (members example_db). mb_id m \<noteq> f_mb_id ?f \<and> mb_email m = f_mb_email ?f)"
    by (simp add: example_db_def alice_def bob_def example_form_def)
  have target: "find (\<lambda>x. mb_id x = ''alice'') (members example_db) = Some alice"
    by (simp add: example_db_def alice_def)
  from update_targets_session_id [OF v marker, of example_db example_config] nick email target
  have "snd ?run = Inr (RedirectResponse (Path (''/admin/member_form/'' @ ''alice'')) 302)"
    and "find (\<lambda>x. mb_id x = ''alice'') (members (fst ?run))
           = Some (overwrite_member example_env example_config ?f alice)"
    and "filter (\<lambda>x. mb_id x \<noteq> ''alice'') (members (fst ?run))
           = filter (\<lambda>x. mb_id x \<noteq> ''alice'') (members example_db)"
    by blast+
  moreover have "filter (\<lambda>x. mb_id x \<noteq> ''alice'') (members example_db) = [bob]"
    by (simp add: example_db_def alice_def bob_def)
  moreover have "mb_nick (overwrite_member example_env example_config ?f alice) = Some ''bobby''"
    by (simp add: mb_nick_overwrite_member str_or_empty_def truthy_str_def)
  ultimately show ?thesis
    using v by simp
qed

end
